theory Spec2Isabelle
  imports Complex_Main "HOL-Library.Sublist" "HOL-Library.Multiset"
begin

section \<open>JavaScript values and built-ins used by the servers\<close>

text \<open>
  The repository holds three versions of one Express server: two that query a MySQL
  database (the second, \<^verbatim>\<open>server-improved.js\<close>, adds logging to the first) and one that
  answers from two JSON files read at startup (snapshot mode). Strings are modelled as \<open>string\<close>, one
  \<open>char\<close> per code unit; case folding and white space cover the ASCII range, other
  characters are left as they are. Numbers are modelled as exact rationals with the two
  infinities and NaN: the rounding and the overflow of IEEE doubles are not modelled.
\<close>

definition upper_letters :: string where
  "upper_letters = ''ABCDEFGHIJKLMNOPQRSTUVWXYZ''"

definition lower_letters :: string where
  "lower_letters = ''abcdefghijklmnopqrstuvwxyz''"

definition lower_char :: "char \<Rightarrow> char" where
  "lower_char c = (case map_of (zip upper_letters lower_letters) c of Some l \<Rightarrow> l | None \<Rightarrow> c)"

text \<open>\<^verbatim>\<open>String.prototype.toLowerCase\<close>\<close>

definition toLowerCase :: "string \<Rightarrow> string" where
  "toLowerCase s = map lower_char s"

text \<open>White space and line terminators of the ASCII range: TAB, LF, VT, FF, CR, SP.\<close>

definition isWhiteSpace :: "char \<Rightarrow> bool" where
  "isWhiteSpace c = (of_char c \<in> {9, 10, 11, 12, 13, 32 :: nat})"


text \<open>\<^verbatim>\<open>String.prototype.trim\<close>\<close>

definition trim :: "string \<Rightarrow> string" where
  "trim s = rev (dropWhile isWhiteSpace (rev (dropWhile isWhiteSpace s)))"

fun startsWith :: "string \<Rightarrow> string \<Rightarrow> bool" where
  "startsWith s [] = True"
| "startsWith [] (q # qs) = False"
| "startsWith (c # cs) (q # qs) = (c = q \<and> startsWith cs qs)"

text \<open>\<^verbatim>\<open>String.prototype.includes\<close>: \<open>str_includes s q\<close> is \<^verbatim>\<open>s.includes(q)\<close>.\<close>

fun str_includes :: "string \<Rightarrow> string \<Rightarrow> bool" where
  "str_includes [] q = (q = [])"
| "str_includes (c # cs) q = (startsWith (c # cs) q \<or> str_includes cs q)"

fun split_acc :: "char \<Rightarrow> string \<Rightarrow> string \<Rightarrow> string list" where
  "split_acc sep cur [] = [rev cur]"
| "split_acc sep cur (c # cs) =
     (if c = sep then rev cur # split_acc sep [] cs else split_acc sep (c # cur) cs)"

text \<open>\<^verbatim>\<open>String.prototype.split\<close> with a separator of one character.\<close>

definition split :: "string \<Rightarrow> char \<Rightarrow> string list" where
  "split s sep = split_acc sep [] s"





















text \<open>
  \<^verbatim>\<open>Array.prototype.sort\<close> with a comparison function. The sort is stable; it is modelled
  as an insertion sort, which gives the order of every stable sort when the comparison
  function is consistent.
\<close>

fun sort_insert :: "('a \<Rightarrow> 'a \<Rightarrow> int) \<Rightarrow> 'a \<Rightarrow> 'a list \<Rightarrow> 'a list" where
  "sort_insert cmp x [] = [x]"
| "sort_insert cmp x (y # ys) = (if cmp x y \<le> 0 then x # y # ys else y # sort_insert cmp x ys)"

definition array_sort :: "('a \<Rightarrow> 'a \<Rightarrow> int) \<Rightarrow> 'a list \<Rightarrow> 'a list" where
  "array_sort cmp xs = foldr (sort_insert cmp) xs []"


text \<open>
  A comparison function is consistent when it orders every pair and is transitive;
  \<^verbatim>\<open>localeCompare\<close> is, and so is a collation.
\<close>

definition consistent :: "('a \<Rightarrow> 'a \<Rightarrow> int) \<Rightarrow> bool" where
  "consistent cmp =
     ((\<forall>a b. cmp a b \<le> 0 \<or> cmp b a \<le> 0) \<and>
      (\<forall>a b c. cmp a b \<le> 0 \<longrightarrow> cmp b c \<le> 0 \<longrightarrow> cmp a c \<le> 0))"


section \<open>Data model\<close>

text \<open>
  A restaurant and a dish are JSON objects (snapshot mode) or table rows (relational mode).
  A field the code tests before it reads it is optional here. Identifiers are integers.
\<close>

record restaurant =
  rest_id :: int
  rest_name :: string
  rest_address :: "string option"
  rest_type :: "string option"
  rest_rating :: "rat option"
  rest_latitude :: "rat option"
  rest_longitude :: "rat option"

text \<open>
  The record of a dish is parametric in the type of its name: an entry of the snapshot
  file carries any JSON value there, a loaded dish carries a string.
\<close>

record 'n dish_rec =
  dish_id :: int
  dish_name :: 'n
  dish_category :: "string option"
  dish_price :: "rat option"
  dish_ingredients :: "string list option"
  dish_restaurants :: "int list option"

type_synonym dish = "string dish_rec"







section \<open>Snapshot mode: the load procedure\<close>






record snapshot =
  restaurantsData :: "restaurant list"
  dishesData :: "dish list"




section \<open>Snapshot mode: the request handlers\<close>

datatype 'a response = Status200 'a | Status400 | Status404 | Status500

text \<open>\<^verbatim>\<open>GET /api/restaurants\<close>\<close>

definition listRestaurants :: "snapshot \<Rightarrow> restaurant list response" where
  "listRestaurants s = Status200 (restaurantsData s)"










text \<open>The response body of a search: each of the two keys is there or not.\<close>

record ('r, 'd) search_results =
  restaurants :: "'r list option"
  dishes :: "'d list option"

text \<open>
  \<^verbatim>\<open>query.split(',').map(q => q.trim().toLowerCase()).filter(q => q.length > 0)\<close>
\<close>

definition search_terms :: "string \<Rightarrow> string list" where
  "search_terms query =
     filter (\<lambda>q. length q > 0) (map (\<lambda>q. toLowerCase (trim q)) (split query (CHR '','')))"

definition restaurant_term_match :: "restaurant \<Rightarrow> string \<Rightarrow> bool" where
  "restaurant_term_match r q =
     (str_includes (toLowerCase (rest_name r)) q \<or>
      (case rest_address r of None \<Rightarrow> False | Some a \<Rightarrow> a \<noteq> [] \<and> str_includes (toLowerCase a) q) \<or>
      (case rest_type r of None \<Rightarrow> False | Some t \<Rightarrow> t \<noteq> [] \<and> str_includes (toLowerCase t) q))"

definition dish_term_match :: "dish \<Rightarrow> string \<Rightarrow> bool" where
  "dish_term_match d q =
     (str_includes (toLowerCase (dish_name d)) q \<or>
      (case dish_category d of None \<Rightarrow> False | Some c \<Rightarrow> c \<noteq> [] \<and> str_includes (toLowerCase c) q) \<or>
      (case dish_ingredients d of
         None \<Rightarrow> False
       | Some ings \<Rightarrow> list_ex (\<lambda>ing. str_includes (toLowerCase ing) q) ings))"

text \<open>
  \<^verbatim>\<open>GET /api/search\<close>. \<open>type_param\<close> is the \<^verbatim>\<open>type\<close> parameter, whose default
  \<^verbatim>\<open>'all'\<close> applies when the request has none. The guard \<^verbatim>\<open>d && typeof d === 'object' && d.name\<close>
  of the dish filter is, on a loaded dish, the test that its name is not empty.
\<close>

definition unifiedSearch ::
  "snapshot \<Rightarrow> string option \<Rightarrow> string option \<Rightarrow> (restaurant, dish) search_results response" where
  "unifiedSearch s query_param type_param =
     (let type = (case type_param of None \<Rightarrow> ''all'' | Some t \<Rightarrow> t)
      in case query_param of
           None \<Rightarrow> Status400
         | Some query \<Rightarrow>
             if query = [] then Status400
             else
               (let results0 = \<lparr>restaurants = None, dishes = None\<rparr>;
                    queries = search_terms query;
                    results1 =
                      (if type = ''all'' \<or> type = ''restaurants''
                       then results0\<lparr>restaurants :=
                              Some (take 20 (filter (\<lambda>r. list_ex (restaurant_term_match r) queries)
                                               (restaurantsData s)))\<rparr>
                       else results0);
                    results2 =
                      (if type = ''all'' \<or> type = ''dishes''
                       then results1\<lparr>dishes :=
                              Some (take 20 (filter (\<lambda>d. dish_name d \<noteq> [] \<and>
                                                         list_ex (dish_term_match d) queries)
                                               (dishesData s)))\<rparr>
                       else results1)
                in Status200 results2))"






section \<open>Relational mode: the request handlers of the two MySQL servers\<close>

text \<open>
  The two MySQL servers run the same statements and differ in what they log. A statement
  is modelled by what it selects from the tables; a table is the list of its rows in the
  order a scan returns them. The database is \<open>None\<close> when the pool cannot be reached:
  \<^verbatim>\<open>pool.query\<close> then throws and the handler answers 500.
\<close>

record dish_row =
  row_id :: int
  row_name :: string
  row_description :: "string option"
  row_category :: "string option"
  row_price :: "rat option"
  row_ingredients :: "string option"

record database =
  restaurants_table :: "restaurant list"
  dishes_table :: "dish_row list"

text \<open>
  \<^verbatim>\<open>LIKE\<close>: \<^verbatim>\<open>%\<close> stands for any string, \<^verbatim>\<open>_\<close> for any character, a backslash makes
  the next character literal; the comparison ignores the case of letters, as the default
  collations do. A column that is NULL matches nothing.
\<close>

datatype like_token = AnyString | AnyChar | Literal char

definition wildcard :: "char \<Rightarrow> like_token" where
  "wildcard c = (if c = CHR ''%'' then AnyString else if c = CHR ''_'' then AnyChar else Literal c)"

fun like_tokens :: "string \<Rightarrow> like_token list" where
  "like_tokens [] = []"
| "like_tokens [c] = [wildcard c]"
| "like_tokens (c # d # cs) =
     (if c = CHR 0x5C then Literal d # like_tokens cs else wildcard c # like_tokens (d # cs))"

fun like_match :: "like_token list \<Rightarrow> string \<Rightarrow> bool" where
  "like_match [] s = (s = [])"
| "like_match (AnyString # ts) [] = like_match ts []"
| "like_match (AnyString # ts) (c # cs) = (like_match ts (c # cs) \<or> like_match (AnyString # ts) cs)"
| "like_match (AnyChar # ts) [] = False"
| "like_match (AnyChar # ts) (c # cs) = like_match ts cs"
| "like_match (Literal l # ts) [] = False"
| "like_match (Literal l # ts) (c # cs) = (lower_char l = lower_char c \<and> like_match ts cs)"

definition sql_like :: "string option \<Rightarrow> string \<Rightarrow> bool" where
  "sql_like column pattern =
     (case column of None \<Rightarrow> False | Some v \<Rightarrow> like_match (like_tokens pattern) v)"




text \<open>\<^verbatim>\<open>ORDER BY rating DESC\<close>: the larger rating first, NULL last.\<close>

definition rating_desc :: "restaurant \<Rightarrow> restaurant \<Rightarrow> int" where
  "rating_desc a b =
     (case rest_rating a of
        None \<Rightarrow> (case rest_rating b of None \<Rightarrow> 0 | Some y \<Rightarrow> 1)
      | Some x \<Rightarrow> (case rest_rating b of
                    None \<Rightarrow> - 1
                  | Some y \<Rightarrow> if y < x then - 1 else if x < y then 1 else 0))"

text \<open>\<^verbatim>\<open>SELECT * FROM restaurants ORDER BY rating DESC\<close>\<close>

definition listRestaurants_sql :: "database option \<Rightarrow> restaurant list response" where
  "listRestaurants_sql db =
     (case db of
        None \<Rightarrow> Status500
      | Some d \<Rightarrow> Status200 (array_sort rating_desc (restaurants_table d)))"



text \<open>
  \<^verbatim>\<open>GET /api/search\<close>: the whole query text, between two \<^verbatim>\<open>%\<close>, is the one pattern of
  \<^verbatim>\<open>name LIKE ? OR address LIKE ? OR type LIKE ? LIMIT 20\<close> on the restaurants and of
  \<^verbatim>\<open>name LIKE ? OR description LIKE ? OR category LIKE ? OR ingredients LIKE ? LIMIT 20\<close>
  on the dishes. A statement is sent only for the scope that asks for it.
\<close>

definition unifiedSearch_sql ::
  "database option \<Rightarrow> string option \<Rightarrow> string option \<Rightarrow>
   (restaurant, dish_row) search_results response" where
  "unifiedSearch_sql db query_param type_param =
     (let type = (case type_param of None \<Rightarrow> ''all'' | Some t \<Rightarrow> t)
      in case query_param of
           None \<Rightarrow> Status400
         | Some query \<Rightarrow>
             if query = [] then Status400
             else
               (let results0 = \<lparr>restaurants = None, dishes = None\<rparr>;
                    searchParam = ''%'' @ query @ ''%'';
                    results1 =
                      (if type = ''all'' \<or> type = ''restaurants''
                       then (case db of
                               None \<Rightarrow> None
                             | Some d \<Rightarrow>
                                 Some (results0\<lparr>restaurants :=
                                   Some (take 20
                                     (filter (\<lambda>r. sql_like (Some (rest_name r)) searchParam \<or>
                                                  sql_like (rest_address r) searchParam \<or>
                                                  sql_like (rest_type r) searchParam)
                                        (restaurants_table d)))\<rparr>))
                       else Some results0);
                    results2 =
                      (case results1 of
                         None \<Rightarrow> None
                       | Some r1 \<Rightarrow>
                           if type = ''all'' \<or> type = ''dishes''
                           then (case db of
                                   None \<Rightarrow> None
                                 | Some d \<Rightarrow>
                                     Some (r1\<lparr>dishes :=
                                       Some (take 20
                                         (filter (\<lambda>row. sql_like (Some (row_name row)) searchParam \<or>
                                                        sql_like (row_description row) searchParam \<or>
                                                        sql_like (row_category row) searchParam \<or>
                                                        sql_like (row_ingredients row) searchParam)
                                            (dishes_table d)))\<rparr>))
                           else Some r1)
                in case results2 of None \<Rightarrow> Status500 | Some r \<Rightarrow> Status200 r))"

section \<open>The contracts of the specification\<close>










text \<open>Descending order of rating: the rating of \<open>a\<close> is not below that of \<open>b\<close>, NULL being lowest.\<close>

definition rated_before :: "restaurant \<Rightarrow> restaurant \<Rightarrow> bool" where
  "rated_before a b =
     (case rest_rating b of
        None \<Rightarrow> True
      | Some y \<Rightarrow> (case rest_rating a of None \<Rightarrow> False | Some x \<Rightarrow> y \<le> x))"

section \<open>Sample data\<close>

text \<open>The two dishes of the scenario in the specification, and a small catalog.\<close>

definition pilaf :: dish where
  "pilaf = \<lparr>dish_id = 1, dish_name = ''Pilaf'', dish_category = None, dish_price = Some 10,
            dish_ingredients = None, dish_restaurants = None\<rparr>"

definition borscht :: dish where
  "borscht = \<lparr>dish_id = 2, dish_name = ''Borscht'', dish_category = None, dish_price = Some 6,
              dish_ingredients = None, dish_restaurants = None\<rparr>"

definition margherita :: dish where
  "margherita = \<lparr>dish_id = 3, dish_name = ''Margherita'', dish_category = Some ''Pizza'',
                 dish_price = Some 8, dish_ingredients = Some [''Tomato'', ''Mozzarella''],
                 dish_restaurants = Some [1]\<rparr>"

definition philadelphia :: dish where
  "philadelphia = \<lparr>dish_id = 4, dish_name = ''Philadelphia'', dish_category = Some ''Sushi'',
                   dish_price = Some 12, dish_ingredients = Some [''Salmon'', ''Rice''],
                   dish_restaurants = Some [2, 1]\<rparr>"

definition pizza_hut :: restaurant where
  "pizza_hut = \<lparr>rest_id = 1, rest_name = ''Pizza Hut'', rest_address = Some ''Abay 10'',
                rest_type = Some ''Pizzeria'', rest_rating = Some 3,
                rest_latitude = Some 43.25, rest_longitude = Some 76.9\<rparr>"

definition sushi_bar :: restaurant where
  "sushi_bar = \<lparr>rest_id = 2, rest_name = ''Sushi Bar'', rest_address = None,
                rest_type = Some ''Japanese'', rest_rating = Some 4.5,
                rest_latitude = None, rest_longitude = None\<rparr>"


definition catalog :: snapshot where
  "catalog = \<lparr>restaurantsData = [pizza_hut, sushi_bar\<lparr>rest_latitude := Some 43.21, rest_longitude := Some 76.95\<rparr>],
              dishesData = [pilaf, borscht, margherita, philadelphia]\<rparr>"



definition pilaf_row :: dish_row where
  "pilaf_row = \<lparr>row_id = 1, row_name = ''Pilaf'', row_description = Some ''Rice with lamb'',
                row_category = Some ''Main'', row_price = Some 10,
                row_ingredients = Some ''rice, lamb, carrot''\<rparr>"

definition tables :: database where
  "tables = \<lparr>restaurants_table = [pizza_hut, sushi_bar], dishes_table = [pilaf_row]\<rparr>"



section \<open>Properties of the built-ins\<close>









lemma mset_sort_insert: "mset (sort_insert cmp x xs) = add_mset x (mset xs)"
  by (induction xs) auto

lemma mset_array_sort: "mset (array_sort cmp xs) = mset xs"
  unfolding array_sort_def by (induction xs) (auto simp: mset_sort_insert)

lemma sorted_sort_insert:
  assumes "consistent cmp" and "sorted_wrt (\<lambda>a b. cmp a b \<le> 0) xs"
  shows "sorted_wrt (\<lambda>a b. cmp a b \<le> 0) (sort_insert cmp x xs)"
  using assms(2)
proof (induction xs)
  case Nil
  show ?case by simp
next
  case (Cons y ys)
  have total: "\<And>a b. cmp a b \<le> 0 \<or> cmp b a \<le> 0"
    and trans: "\<And>a b c. cmp a b \<le> 0 \<Longrightarrow> cmp b c \<le> 0 \<Longrightarrow> cmp a c \<le> 0"
    using assms(1) unfolding consistent_def by blast+
  show ?case
  proof (cases "cmp x y \<le> 0")
    case True
    with Cons.prems trans show ?thesis by auto
  next
    case False
    then have "cmp y x \<le> 0" using total [of x y] by simp
    moreover have "set (sort_insert cmp x ys) = insert x (set ys)"
      by (metis mset_sort_insert set_mset_add_mset_insert set_mset_mset)
    ultimately show ?thesis using False Cons by auto
  qed
qed

lemma sorted_array_sort:
  "consistent cmp \<Longrightarrow> sorted_wrt (\<lambda>a b. cmp a b \<le> 0) (array_sort cmp xs)"
  unfolding array_sort_def by (induction xs) (auto intro: sorted_sort_insert)


























section \<open>The search endpoint: the request check and the scope\<close>

text \<open>
  Claim C6. In the snapshot server and in the MySQL servers alike, the search answers 400
  (InvalidRequest) exactly when the query text is absent or the empty string; for every
  other query text the answer is not 400.
\<close>

theorem search_invalid_request:
  "(unifiedSearch s query_param type_param = Status400 \<longleftrightarrow>
      query_param = None \<or> query_param = Some []) \<and>
   (unifiedSearch_sql db query_param type_param = Status400 \<longleftrightarrow>
      query_param = None \<or> query_param = Some [])"
  by (auto simp: unifiedSearch_def unifiedSearch_sql_def Let_def split: option.splits)

theorem search_invalid_request_witness:
  "unifiedSearch catalog None (Some ''all'') = Status400 \<and>
   unifiedSearch catalog (Some []) None = Status400 \<and>
   unifiedSearch catalog (Some ''pizza'') None \<noteq> Status400 \<and>
   unifiedSearch_sql (Some tables) (Some []) None = Status400 \<and>
   unifiedSearch_sql None (Some ''pizza'') None \<noteq> Status400"
  using search_invalid_request [of catalog None "Some ''all''" "Some tables"]
    search_invalid_request [of catalog "Some []" None "Some tables"]
    search_invalid_request [of catalog "Some ''pizza''" None None]
  by simp

text \<open>
  Claim C10. For a query text that is not empty and a scope other than \<^verbatim>\<open>all\<close>,
  \<^verbatim>\<open>restaurants\<close> and \<^verbatim>\<open>dishes\<close>, the search answers 200 with an object that has neither
  a list of restaurants nor a list of dishes; the MySQL servers send no statement for such a
  scope, so they answer the same whether the database can be reached or not.
\<close>

theorem search_unknown_scope:
  assumes "query \<noteq> []"
    and "type \<noteq> ''all''" and "type \<noteq> ''restaurants''" and "type \<noteq> ''dishes''"
  shows "unifiedSearch s (Some query) (Some type) =
           Status200 \<lparr>restaurants = None, dishes = None\<rparr> \<and>
         unifiedSearch_sql db (Some query) (Some type) =
           Status200 \<lparr>restaurants = None, dishes = None\<rparr>"
  using assms by (simp add: unifiedSearch_def unifiedSearch_sql_def Let_def)

theorem search_unknown_scope_witness:
  "unifiedSearch catalog (Some ''pizza'') (Some ''menu'') =
     Status200 \<lparr>restaurants = None, dishes = None\<rparr> \<and>
   unifiedSearch_sql None (Some ''pizza'') (Some ''menu'') =
     Status200 \<lparr>restaurants = None, dishes = None\<rparr>"
  using search_unknown_scope [of "''pizza''" "''menu''" catalog None]
  by simp

section \<open>Lookup by identifier\<close>




section \<open>The relation between restaurants and dishes\<close>




section \<open>The dish filter\<close>















section \<open>The search of the dish filter in the two modes\<close>













section \<open>Truthiness of the price parameters\<close>







section \<open>The unified search\<close>












section \<open>The list of restaurants\<close>

lemma consistent_rating_desc: "consistent rating_desc"
  unfolding consistent_def rating_desc_def
  by (auto split: option.splits if_splits)

lemma rating_desc_rated_before: "rating_desc a b \<le> 0 \<longleftrightarrow> rated_before a b"
  by (auto simp: rating_desc_def rated_before_def split: option.splits)

lemma listRestaurants_sql_sorted:
  "\<exists>rs. listRestaurants_sql (Some db) = Status200 rs \<and>
        mset rs = mset (restaurants_table db) \<and> sorted_wrt rated_before rs"
proof -
  have "sorted_wrt (\<lambda>a b. rating_desc a b \<le> 0) (array_sort rating_desc (restaurants_table db))"
    using consistent_rating_desc by (rule sorted_array_sort)
  then show ?thesis
    by (simp add: listRestaurants_sql_def mset_array_sort rating_desc_rated_before)
qed

text \<open>
  Claim C3. The two MySQL servers answer \<^verbatim>\<open>GET /api/restaurants\<close> with the rows of the table
  ordered by rating, highest first. The snapshot server answers with the collection in the
  order of the file: on a file that lists Pizza Hut (rating 3) before Sushi Bar (rating 4.5)
  it answers in that order, where the MySQL servers answer Sushi Bar first.
\<close>

theorem listRestaurants_file_order:
  "listRestaurants s = Status200 (restaurantsData s) \<and>
   listRestaurants \<lparr>restaurantsData = [pizza_hut, sushi_bar], dishesData = []\<rparr> =
     Status200 [pizza_hut, sushi_bar] \<and>
   \<not> sorted_wrt rated_before [pizza_hut, sushi_bar] \<and>
   listRestaurants_sql (Some \<lparr>restaurants_table = [pizza_hut, sushi_bar], dishes_table = []\<rparr>) =
     Status200 [sushi_bar, pizza_hut] \<and>
   (\<exists>rs. listRestaurants_sql (Some db) = Status200 rs \<and>
         mset rs = mset (restaurants_table db) \<and> sorted_wrt rated_before rs)"
proof (intro conjI)
  show "listRestaurants s = Status200 (restaurantsData s)"
    by (simp add: listRestaurants_def)
  show "listRestaurants \<lparr>restaurantsData = [pizza_hut, sushi_bar], dishesData = []\<rparr> =
      Status200 [pizza_hut, sushi_bar]"
    by (simp add: listRestaurants_def)
  show "\<not> sorted_wrt rated_before [pizza_hut, sushi_bar]"
    by (simp add: rated_before_def pizza_hut_def sushi_bar_def)
  show "listRestaurants_sql (Some \<lparr>restaurants_table = [pizza_hut, sushi_bar], dishes_table = []\<rparr>) =
      Status200 [sushi_bar, pizza_hut]"
    by (simp add: listRestaurants_sql_def array_sort_def rating_desc_def pizza_hut_def sushi_bar_def)
  show "\<exists>rs. listRestaurants_sql (Some db) = Status200 rs \<and>
         mset rs = mset (restaurants_table db) \<and> sorted_wrt rated_before rs"
    by (rule listRestaurants_sql_sorted)
qed

section \<open>The load procedure of the snapshot server\<close>















end
